theory Spec2Isabelle
  imports Main
begin

unbundle bit_operations_syntax

section \<open>Strings of the runtime\<close>

text \<open>
  Strings are lists of characters; a character stands for the code unit with the same
  number (0 to 255).  \<open>substring\<close> is \<open>String.prototype.substring\<close>: both indices are
  clamped to the string and swapped when the first exceeds the second, so it never fails.
\<close>

definition substring :: "string \<Rightarrow> int \<Rightarrow> int \<Rightarrow> string" where
  "substring s indexStart indexEnd =
     (let n = int (length s);
          a = max 0 (min indexStart n);
          b = max 0 (min indexEnd n);
          lo = min a b;
          hi = max a b
      in take (nat (hi - lo)) (drop (nat lo) s))"

text \<open>\<open>Number.prototype.toString(16)\<close> of a non-negative integer: lower-case digits.\<close>

definition hexDigit :: "nat \<Rightarrow> char" where
  "hexDigit d = (if d < 10 then char_of (48 + d) else char_of (87 + d))"

function toString16 :: "nat \<Rightarrow> string" where
  "toString16 n = (if n < 16 then [hexDigit n] else toString16 (n div 16) @ [hexDigit (n mod 16)])"
  by pat_completeness auto
termination
  by (relation "measure (\<lambda>n. n)") auto

declare toString16.simps [simp del]

text \<open>
  \<open>toUpperCase\<close> is applied by the program to hexadecimal numerals only; the model maps
  the letters a to z to A to Z and leaves every other character alone.
\<close>

definition upperChar :: "char \<Rightarrow> char" where
  "upperChar c = (let k = (of_char c :: nat) in if 97 \<le> k \<and> k \<le> 122 then char_of (k - 32) else c)"

definition toUpperCase :: "string \<Rightarrow> string" where
  "toUpperCase s = map upperChar s"

section \<open>The base message: \<open>ElkMessage\<close>\<close>

text \<open>
  \<open>new Buffer(str)\<close> holds the UTF-8 encoding of the string: one byte for a code unit
  below 128, two bytes for the others of the 8-bit range.
\<close>

definition utf8 :: "char \<Rightarrow> nat list" where
  "utf8 c = (let k = (of_char c :: nat) in
     if k < 128 then [k] else [192 + k div 64, 128 + k mod 64])"

definition Buffer :: "string \<Rightarrow> nat list" where
  "Buffer s = concat (map utf8 s)"

text \<open>The loop \<open>for (let i = 0; i < buf.length; i++) sum = sum + buf[i]\<close>.\<close>

function sumLoop :: "nat list \<Rightarrow> nat \<Rightarrow> int \<Rightarrow> int" where
  "sumLoop buf i acc = (if i < length buf then sumLoop buf (i + 1) (acc + int (buf ! i)) else acc)"
  by pat_completeness auto
termination
  by (relation "measure (\<lambda>(buf, i, acc). length buf - i)") auto

declare sumLoop.simps [simp del]

definition hex2 :: "nat \<Rightarrow> string" where
  "hex2 i = (let hex = toUpperCase (toString16 i) in if length hex = 1 then CHR ''0'' # hex else hex)"

text \<open>
  \<open>calcChecksum\<close> reads the fields \<open>hexLength\<close>, \<open>type\<close> and \<open>body\<close> of the message under
  construction; \<open>computeChecksum\<close> is its body on the concatenation of the three.
\<close>

definition computeChecksum :: "string \<Rightarrow> string" where
  "computeChecksum s =
     (let buf = Buffer s;
          acc = sumLoop buf 0 0;
          chars = (((acc AND 255) XOR 255) + 1) AND 255
      in hex2 (nat chars))"

record ElkMessage =
  message :: string
  body :: string
  type :: string
  hexLength :: string
  checkSum :: string

definition calcChecksum :: "ElkMessage \<Rightarrow> string" where
  "calcChecksum m = computeChecksum (hexLength m @ type m @ body m)"

definition validChecksum :: "ElkMessage \<Rightarrow> bool" where
  "validChecksum m = (checkSum m = calcChecksum m)"

text \<open>
  Errors are values.  Both errors the constructor throws itself are \<open>TypeError\<close>s with a
  message; reading a property of \<open>null\<close> or \<open>undefined\<close> is the runtime's own error.
\<close>

datatype error = TypeError string | NullPropertyAccess

text \<open>A constructor argument: \<open>null\<close>, \<open>undefined\<close> (an argument left out) or a string.\<close>

datatype arg = Null | Undefined | Str string

fun notNull :: "arg \<Rightarrow> bool" where
  "notNull Null = False"
| "notNull _ = True"

text \<open>
  The registry \<open>responseTypes\<close> of \<open>lib/types\<close> maps a type code to the name of a message
  class; it is a parameter of the model.
\<close>

type_synonym registry = "string \<rightharpoonup> string"

definition fromCommand :: "string \<Rightarrow> ElkMessage" where
  "fromCommand command =
     (let futureUse = ''00'';
          body0 = substring command 2 (int (length command)) @ futureUse;
          type0 = substring command 0 2;
          len = length (type0 @ body0) + 2;
          lengthStr = toUpperCase (toString16 len);
          lengthStr' = (if length lengthStr = 1 then CHR ''0'' # lengthStr else lengthStr);
          m = \<lparr> message = [], body = body0, type = type0, hexLength = lengthStr', checkSum = [] \<rparr>;
          m' = m \<lparr> checkSum := calcChecksum m \<rparr>
      in m' \<lparr> message := hexLength m' @ type m' @ body m' @ checkSum m' \<rparr>)"

definition checksumError :: "string \<Rightarrow> error" where
  "checksumError msg =
     TypeError (''The calculated checksum does not match the checksum on the received message: '' @ msg)"

text \<open>The fields the constructor slices from a response.\<close>

definition frameFields :: "string \<Rightarrow> ElkMessage" where
  "frameFields response =
     (let len = int (length response)
      in \<lparr> message = response,
           body = substring response 4 (len - 2),
           type = substring response 2 4,
           hexLength = substring response 0 2,
           checkSum = substring response (len - 2) len \<rparr>)"

definition fromResponse :: "registry \<Rightarrow> string \<Rightarrow> error + ElkMessage" where
  "fromResponse responseTypes response =
     (let m = frameFields response
      in if responseTypes (type m) = None
         then (if \<not> validChecksum m then Inl (checksumError (message m)) else Inr m)
         else Inr m)"

fun newElkMessage :: "registry \<Rightarrow> arg \<Rightarrow> arg \<Rightarrow> error + ElkMessage" where
  "newElkMessage responseTypes command response =
     (if notNull command \<and> notNull response
      then Inl (TypeError ''Provide only one argument: Either command or response'')
      else if notNull command
      then (case command of Str c \<Rightarrow> Inr (fromCommand c) | _ \<Rightarrow> Inl NullPropertyAccess)
      else (case response of Str r \<Rightarrow> fromResponse responseTypes r | _ \<Rightarrow> Inl NullPropertyAccess))"

text \<open>The encoder of the specification: a command is its two-character code and its arguments.\<close>

definition encode :: "string \<Rightarrow> ElkMessage" where
  "encode command = fromCommand command"

section \<open>Numbers of the runtime\<close>

text \<open>
  A number is \<open>NaN\<close>, an infinity (\<open>Infinity True\<close> is the positive one) or a finite decimal
  fraction: \<open>Fin m k\<close> is \<open>m / 10 ^ k\<close>, kept with \<open>k\<close> as small as possible.  Every
  number the program handles is read from a decimal, hexadecimal, octal or binary numeral
  and then changed by an integer or divided by ten, so it is such a fraction.  Rounding to
  64-bit floating point, its overflow to infinity and the sign of zero are not modelled.
\<close>

datatype jsnum = NaN | Infinity bool | Fin int nat

function normalize :: "int \<Rightarrow> nat \<Rightarrow> jsnum" where
  "normalize m k = (if 0 < k \<and> m mod 10 = 0 then normalize (m div 10) (k - 1) else Fin m k)"
  by pat_completeness auto
termination
  by (relation "measure (\<lambda>(m, k). k)") auto

declare normalize.simps [simp del]

definition negate :: "jsnum \<Rightarrow> jsnum" where
  "negate x = (case x of NaN \<Rightarrow> NaN | Infinity b \<Rightarrow> Infinity (\<not> b) | Fin m k \<Rightarrow> Fin (- m) k)"

definition addInt :: "jsnum \<Rightarrow> int \<Rightarrow> jsnum" where
  "addInt x n = (case x of NaN \<Rightarrow> NaN | Infinity b \<Rightarrow> Infinity b
                 | Fin m k \<Rightarrow> normalize (m + n * 10 ^ k) k)"

definition subInt :: "jsnum \<Rightarrow> int \<Rightarrow> jsnum" where
  "subInt x n = addInt x (- n)"

definition divTen :: "jsnum \<Rightarrow> jsnum" where
  "divTen x = (case x of NaN \<Rightarrow> NaN | Infinity b \<Rightarrow> Infinity b | Fin m k \<Rightarrow> normalize m (k + 1))"

text \<open>The comparisons \<open><\<close>, \<open><=\<close> and \<open>===\<close>: each is false when an operand is \<open>NaN\<close>.\<close>

fun numLess :: "jsnum \<Rightarrow> jsnum \<Rightarrow> bool" where
  "numLess NaN _ = False"
| "numLess _ NaN = False"
| "numLess (Infinity a) (Infinity b) = (\<not> a \<and> b)"
| "numLess (Infinity a) (Fin m k) = (\<not> a)"
| "numLess (Fin m k) (Infinity b) = b"
| "numLess (Fin m k) (Fin n j) = (m * 10 ^ j < n * 10 ^ k)"

fun numEq :: "jsnum \<Rightarrow> jsnum \<Rightarrow> bool" where
  "numEq NaN _ = False"
| "numEq _ NaN = False"
| "numEq (Infinity a) (Infinity b) = (a = b)"
| "numEq (Infinity a) (Fin m k) = False"
| "numEq (Fin m k) (Infinity b) = False"
| "numEq (Fin m k) (Fin n j) = (m * 10 ^ j = n * 10 ^ k)"

definition numLessEq :: "jsnum \<Rightarrow> jsnum \<Rightarrow> bool" where
  "numLessEq x y = (numLess x y \<or> numEq x y)"

definition num :: "int \<Rightarrow> jsnum" where
  "num n = Fin n 0"

subsection \<open>Numbers to strings\<close>

function decimalDigits :: "nat \<Rightarrow> string" where
  "decimalDigits n = (if n < 10 then [char_of (48 + n)]
                      else decimalDigits (n div 10) @ [char_of (48 + n mod 10)])"
  by pat_completeness auto
termination
  by (relation "measure (\<lambda>n. n)") auto

declare decimalDigits.simps [simp del]

definition intToString :: "int \<Rightarrow> string" where
  "intToString n = (if n < 0 then CHR ''-'' # decimalDigits (nat (- n)) else decimalDigits (nat n))"

definition stripTrailingZeros :: "string \<Rightarrow> string" where
  "stripTrailingZeros ds = rev (dropWhile (\<lambda>c. c = CHR ''0'') (rev ds))"

text \<open>
  \<open>Number.prototype.toString\<close>: with \<open>s\<close> the digits of the number without trailing
  zeros and \<open>n\<close> the position of the decimal point, the notation is positional for
  \<open>-6 < n \<le> 21\<close> and exponential otherwise.
\<close>

definition exponentText :: "int \<Rightarrow> string" where
  "exponentText e = (if e < 0 then ''e-'' @ decimalDigits (nat (- e)) else ''e+'' @ decimalDigits (nat e))"

definition positiveToString :: "nat \<Rightarrow> nat \<Rightarrow> string" where
  "positiveToString m k =
     (let ds = decimalDigits m;
          n = int (length ds) - int k;
          s = stripTrailingZeros ds;
          k' = int (length s)
      in if k' \<le> n \<and> n \<le> 21 then s @ replicate (nat (n - k')) CHR ''0''
         else if 0 < n \<and> n \<le> 21 then take (nat n) s @ ''.'' @ drop (nat n) s
         else if - 6 < n \<and> n \<le> 0 then ''0.'' @ replicate (nat (- n)) CHR ''0'' @ s
         else if k' = 1 then s @ exponentText (n - 1)
         else take 1 s @ ''.'' @ drop 1 s @ exponentText (n - 1))"

definition numToString :: "jsnum \<Rightarrow> string" where
  "numToString x =
     (case x of NaN \<Rightarrow> ''NaN''
      | Infinity b \<Rightarrow> (if b then ''Infinity'' else ''-Infinity'')
      | Fin m k \<Rightarrow> (if m = 0 then ''0''
                    else if m < 0 then CHR ''-'' # positiveToString (nat (- m)) k
                    else positiveToString (nat m) k))"

subsection \<open>Strings to numbers\<close>

definition isWhiteSpace :: "char \<Rightarrow> bool" where
  "isWhiteSpace c = ((of_char c :: nat) \<in> {9, 10, 11, 12, 13, 32, 160})"

definition trimStart :: "string \<Rightarrow> string" where
  "trimStart s = dropWhile isWhiteSpace s"

definition trim :: "string \<Rightarrow> string" where
  "trim s = rev (dropWhile isWhiteSpace (rev (dropWhile isWhiteSpace s)))"

text \<open>The value of a character as a digit in bases up to 36.\<close>

definition digitOf :: "char \<Rightarrow> nat option" where
  "digitOf c = (let k = (of_char c :: nat) in
     if 48 \<le> k \<and> k \<le> 57 then Some (k - 48)
     else if 97 \<le> k \<and> k \<le> 122 then Some (k - 87)
     else if 65 \<le> k \<and> k \<le> 90 then Some (k - 55)
     else None)"

definition isDigitIn :: "nat \<Rightarrow> char \<Rightarrow> bool" where
  "isDigitIn radix c = (case digitOf c of None \<Rightarrow> False | Some d \<Rightarrow> d < radix)"

definition digitsValue :: "nat \<Rightarrow> string \<Rightarrow> nat" where
  "digitsValue radix ds = foldl (\<lambda>a c. radix * a + the (digitOf c)) 0 ds"

text \<open>A sign in front: whether it is a minus, and what follows it.\<close>

definition splitSign :: "string \<Rightarrow> bool \<times> string" where
  "splitSign s = (case s of [] \<Rightarrow> (False, [])
                  | c # r \<Rightarrow> if c = CHR ''-'' then (True, r)
                            else if c = CHR ''+'' then (False, r) else (False, s))"

definition hasHexPrefix :: "string \<Rightarrow> bool" where
  "hasHexPrefix s = (take 2 s = ''0x'' \<or> take 2 s = ''0X'')"

text \<open>
  \<open>parseInt (string, radix)\<close>; the radix 0 stands for a radix left out.  Leading white
  space and a sign are skipped, a hexadecimal prefix is skipped when the radix is 16 or
  left out, and the longest run of digits of the radix is read; no digit gives \<open>NaN\<close>.
\<close>

definition parseInt :: "string \<Rightarrow> nat \<Rightarrow> jsnum" where
  "parseInt str radix =
     (let (neg, s1) = splitSign (trimStart str);
          stripPrefix = (radix = 0 \<or> radix = 16);
          r0 = (if radix = 0 then 10 else radix);
          (r, s2) = (if stripPrefix \<and> hasHexPrefix s1 then (16, drop 2 s1) else (r0, s1));
          z = takeWhile (isDigitIn r) s2
      in if radix \<noteq> 0 \<and> (radix < 2 \<or> 36 < radix) then NaN
         else if z = [] then NaN
         else Fin ((if neg then - 1 else 1) * int (digitsValue r z)) 0)"

text \<open>The exponent part of a decimal numeral, when there is a complete one.\<close>

definition parseExponent :: "string \<Rightarrow> int \<times> string" where
  "parseExponent s =
     (case s of [] \<Rightarrow> (0, s)
      | c # r \<Rightarrow>
          if c = CHR ''e'' \<or> c = CHR ''E''
          then (let (neg, r1) = splitSign r;
                    ds = takeWhile (isDigitIn 10) r1
                in if ds = [] then (0, s)
                   else ((if neg then - 1 else 1) * int (digitsValue 10 ds),
                         dropWhile (isDigitIn 10) r1))
          else (0, s))"

definition decimalValue :: "string \<Rightarrow> string \<Rightarrow> int \<Rightarrow> jsnum" where
  "decimalValue ds1 ds2 ex =
     (let m = int (digitsValue 10 (ds1 @ ds2));
          sh = ex - int (length ds2)
      in if 0 \<le> sh then Fin (m * 10 ^ nat sh) 0 else normalize m (nat (- sh)))"

text \<open>
  The longest prefix that is an unsigned decimal numeral (\<open>Infinity\<close>, or digits with an
  optional fraction and exponent), with its value and the rest of the string.
\<close>

definition parseUnsigned :: "string \<Rightarrow> (jsnum \<times> string) option" where
  "parseUnsigned s =
     (if take 8 s = ''Infinity'' then Some (Infinity True, drop 8 s)
      else let ds1 = takeWhile (isDigitIn 10) s;
               r1 = dropWhile (isDigitIn 10) s;
               dot = (take 1 r1 = ''.'');
               ds2 = (if dot then takeWhile (isDigitIn 10) (drop 1 r1) else []);
               r2 = (if dot then dropWhile (isDigitIn 10) (drop 1 r1) else r1)
           in if ds1 = [] \<and> ds2 = [] then None
              else (let (ex, r3) = parseExponent r2 in Some (decimalValue ds1 ds2 ex, r3)))"

definition parseSigned :: "string \<Rightarrow> (jsnum \<times> string) option" where
  "parseSigned s =
     (let (neg, r) = splitSign s
      in case parseUnsigned r of None \<Rightarrow> None
         | Some (v, rest) \<Rightarrow> Some (if neg then negate v else v, rest))"

definition parseFloat :: "string \<Rightarrow> jsnum" where
  "parseFloat s = (case parseSigned (trimStart s) of None \<Rightarrow> NaN | Some (v, rest) \<Rightarrow> v)"

text \<open>A numeral with a prefix for base 16, 8 or 2: no sign, one digit at least.\<close>

definition prefixedRadix :: "string \<Rightarrow> nat option" where
  "prefixedRadix s =
     (if take 2 s = ''0x'' \<or> take 2 s = ''0X'' then Some 16
      else if take 2 s = ''0o'' \<or> take 2 s = ''0O'' then Some 8
      else if take 2 s = ''0b'' \<or> take 2 s = ''0B'' then Some 2
      else None)"

definition nonDecimal :: "string \<Rightarrow> jsnum option" where
  "nonDecimal s =
     (case prefixedRadix s of None \<Rightarrow> None
      | Some r \<Rightarrow> (let ds = drop 2 s
                   in if ds \<noteq> [] \<and> list_all (isDigitIn r) ds
                      then Some (Fin (int (digitsValue r ds)) 0) else None))"

text \<open>
  \<open>Number (string)\<close>, which is also the unary plus: white space around the numeral is
  dropped, the empty string is 0, and anything that is not a whole numeral is \<open>NaN\<close>.
\<close>

definition Number :: "string \<Rightarrow> jsnum" where
  "Number str =
     (let s = trim str
      in if s = [] then Fin 0 0
         else case nonDecimal s of Some v \<Rightarrow> v
              | None \<Rightarrow> (case parseSigned s of Some (v, []) \<Rightarrow> v | _ \<Rightarrow> NaN))"

text \<open>
  \<open>ToInt32\<close>, applied by the bit operators: \<open>NaN\<close> and the infinities are 0, a finite
  number is cut to an integer towards zero and wrapped to 32 bits.
\<close>

definition truncate :: "int \<Rightarrow> nat \<Rightarrow> int" where
  "truncate m k = (if m < 0 then - ((- m) div 10 ^ k) else m div 10 ^ k)"

definition toInt32 :: "jsnum \<Rightarrow> int" where
  "toInt32 x = (case x of Fin m k \<Rightarrow> (truncate m k + 2 ^ 31) mod 2 ^ 32 - 2 ^ 31 | _ \<Rightarrow> 0)"

section \<open>Lookup tables\<close>

text \<open>
  The tables of \<open>lib/types\<close> and the enumerations of \<open>lib/enums\<close> are parameters of the
  model.  A table is a \<open>Map\<close> from strings to strings.  An enumeration is an object read
  by property name: the name of a number is its decimal text, and the value found is a
  string or a number.
\<close>

datatype enumval = EStr string | ENum int

type_synonym enum = "string \<rightharpoonup> enumval"

record tables =
  responseTypes :: registry
  armStatus :: "string \<rightharpoonup> string"
  armUpState :: "string \<rightharpoonup> string"
  alarmState :: "string \<rightharpoonup> string"
  zoneDefinition :: "string \<rightharpoonup> string"
  EventType :: "string \<rightharpoonup> string"
  TimerType :: enum
  Key :: enum
  IlluminationStatus :: enum
  Month :: enum
  WeekDay :: enum
  ThermostatMode :: enum
  TextDescriptionType :: enum
  PhysicalStatus :: enum
  LogicalState :: enum

text \<open>\<open>Map.prototype.get\<close> with a key that may be \<open>undefined\<close> (no table has that key).\<close>

definition getOpt :: "(string \<rightharpoonup> string) \<Rightarrow> string option \<Rightarrow> string option" where
  "getOpt m k = (case k of None \<Rightarrow> None | Some s \<Rightarrow> m s)"

text \<open>Reading an array at an index: \<open>undefined\<close> beyond its end.\<close>

definition at :: "'a list \<Rightarrow> nat \<Rightarrow> 'a option" where
  "at xs i = (if i < length xs then Some (xs ! i) else None)"

text \<open>\<open>split('')\<close>: the characters of a string, each as a string.\<close>

definition splitChars :: "string \<Rightarrow> string list" where
  "splitChars s = map (\<lambda>c. [c]) s"

section \<open>Loops\<close>

text \<open>
  \<open>forBelow i n f s\<close> is \<open>for (; i < n; i++) s = f i s\<close> and \<open>forUpTo i n f s\<close> is
  \<open>for (; i <= n; i++) s = f i s\<close>.
\<close>

function forBelow :: "nat \<Rightarrow> nat \<Rightarrow> (nat \<Rightarrow> 's \<Rightarrow> 's) \<Rightarrow> 's \<Rightarrow> 's" where
  "forBelow i n f s = (if i < n then forBelow (i + 1) n f (f i s) else s)"
  by pat_completeness auto
termination
  by (relation "measure (\<lambda>(i, n, f, s). n - i)") auto

declare forBelow.simps [simp del]

function forUpTo :: "nat \<Rightarrow> nat \<Rightarrow> (nat \<Rightarrow> 's \<Rightarrow> 's) \<Rightarrow> 's \<Rightarrow> 's" where
  "forUpTo i n f s = (if i \<le> n then forUpTo (i + 1) n f (f i s) else s)"
  by pat_completeness auto
termination
  by (relation "measure (\<lambda>(i, n, f, s). Suc n - i)") auto

declare forUpTo.simps [simp del]

section \<open>The typed messages\<close>

datatype AreaReport = AreaReport int "string option" "string option" "string option"

datatype ZoneDefinition = ZoneDefinition int "string option"

text \<open>An entry of a zone status report: id, physical status, logical state.\<close>

datatype ZoneStatus = ZoneStatus int "enumval option" "enumval option"

text \<open>An entry of a zone partition report: id, partition.\<close>

datatype ZonePartition = ZonePartition int jsnum

text \<open>
  The fields a message class adds to those of \<open>ElkMessage\<close>, in the order of their
  declaration in the class.
\<close>

datatype fields =
    NoFields
  | ArmingStatusReport "AreaReport list"
  | EntryExitTime jsnum "enumval option" jsnum jsnum "string option"
  | KeypadAreasReport "jsnum list" "(int \<times> jsnum) list"
  | KeypadKeyChangeUpdate jsnum "enumval option" "enumval option list" bool
  | LogDataUpdate string "string option" jsnum jsnum string string "enumval option" jsnum
      "enumval option" string
  | OutputChangeUpdate jsnum string
  | OutputStatusReport "string list"
  | TemperatureReply "jsnum list" "jsnum list"
  | ThermostatReply string "enumval option" bool string jsnum jsnum jsnum string
  | TextStringDescriptionReport "enumval option" jsnum string
  | TaskChangeUpdate jsnum
  | ZoneBypass jsnum bool
  | ZoneDefinitionReport "ZoneDefinition list"
  | ZoneVoltageReport jsnum jsnum
  | ZoneChangeUpdate jsnum "enumval option" "enumval option"
  | ZoneStatusReport "ZoneStatus list"
  | ZonePartitionReport "ZonePartition list"

type_synonym decoded = "ElkMessage \<times> fields"

text \<open>\<open>substring\<close> with the indices of a loop.\<close>

definition sub :: "string \<Rightarrow> nat \<Rightarrow> nat \<Rightarrow> string" where
  "sub s i j = substring s (int i) (int j)"

definition armingStatusFields :: "tables \<Rightarrow> string \<Rightarrow> fields" where
  "armingStatusFields T b =
     (let armStatuses = splitChars (sub b 0 8);
          armUpStates = splitChars (sub b 8 16);
          alarmStates = splitChars (sub b 16 24)
      in ArmingStatusReport
           (forBelow 0 8
              (\<lambda>i areas. areas @ [AreaReport (int i + 1)
                                    (getOpt (armStatus T) (at armStatuses i))
                                    (getOpt (armUpState T) (at armUpStates i))
                                    (getOpt (alarmState T) (at alarmStates i))])
              []))"

definition entryExitFields :: "tables \<Rightarrow> string \<Rightarrow> fields" where
  "entryExitFields T b =
     EntryExitTime (Number (sub b 0 1)) (TimerType T (sub b 1 2)) (Number (sub b 2 5))
       (Number (sub b 5 8)) (armStatus T (sub b 8 9))"

text \<open>
  The keypad areas: the state of the loop is the array \<open>areas\<close> and the map
  \<open>keypadAreaAssignment\<close>, kept as the list of its entries in insertion order (the keys
  \<open>i + 1\<close> are all different).  \<open>indexOf\<close> compares with \<open>===\<close>.
\<close>

definition indexOfFails :: "jsnum list \<Rightarrow> jsnum \<Rightarrow> bool" where
  "indexOfFails xs x = (\<not> list_ex (\<lambda>y. numEq y x) xs)"

definition keypadAreasStep :: "string \<Rightarrow> nat \<Rightarrow> jsnum list \<times> (int \<times> jsnum) list
    \<Rightarrow> jsnum list \<times> (int \<times> jsnum) list" where
  "keypadAreasStep b i st =
     (let area = parseInt (sub b i (i + 1)) 10
      in if numEq area (num 0) then st
         else (let assignment = snd st @ [(int i + 1, area)]
               in if indexOfFails (fst st) area then (fst st @ [area], assignment)
                  else (fst st, assignment)))"

definition keypadAreasFields :: "tables \<Rightarrow> string \<Rightarrow> fields" where
  "keypadAreasFields T b =
     (let st = forBelow 0 16 (keypadAreasStep b) ([], []) in KeypadAreasReport (fst st) (snd st))"

definition keypadKeyChangeFields :: "tables \<Rightarrow> string \<Rightarrow> fields" where
  "keypadKeyChangeFields T b =
     KeypadKeyChangeUpdate (Number (sub b 0 2)) (Key T (sub b 2 4))
       [IlluminationStatus T (sub b 4 5), IlluminationStatus T (sub b 5 6),
        IlluminationStatus T (sub b 6 7), IlluminationStatus T (sub b 7 8),
        IlluminationStatus T (sub b 8 9), IlluminationStatus T (sub b 9 10)]
       (numEq (Number (sub b 10 11)) (num 1))"

definition inRange :: "jsnum \<Rightarrow> int \<Rightarrow> int \<Rightarrow> bool" where
  "inRange event lo hi = (numLessEq (num lo) event \<and> numLessEq event (num hi))"

definition getEventType :: "tables \<Rightarrow> jsnum \<Rightarrow> string option" where
  "getEventType T event =
     (if inRange event 4001 4208
      then Some (''Zone '' @ numToString (subInt event 4000) @ '' Status: ''
                 @ (if numEq event (num 1) then ''violated'' else ''normal''))
      else if inRange event 5001 5208
      then Some (''Zone '' @ numToString (subInt event 4000) @ ''  Bypassed: ''
                 @ (if numEq event (num 1) then ''bypassed'' else []))
      else if inRange event 6001 6208
      then Some (''Alarm Memory: '' @ (if numEq event (num 1) then ''alarm activated'' else []))
      else if inRange event 7001 7208
      then Some (''Output '' @ numToString (subInt event 4000) @ ''  Status: ''
                 @ (if numEq event (num 1) then ''On'' else ''Off''))
      else EventType T (numToString event))"

text \<open>
  The fields of a log data update in the order of the class: \<open>logIndex\<close>, \<open>event\<close>,
  \<open>id\<close>, \<open>areaId\<close>, \<open>hour\<close>, \<open>minute\<close>, \<open>month\<close>, \<open>day\<close>, \<open>dayOfWeek\<close>, \<open>year\<close>.
\<close>

definition logDataFields :: "tables \<Rightarrow> string \<Rightarrow> fields" where
  "logDataFields T b =
     LogDataUpdate (sub b 16 19) (getEventType T (Number (sub b 0 4))) (Number (sub b 4 7))
       (Number (sub b 7 8)) (sub b 8 10) (sub b 10 12)
       (Month T (numToString (Number (sub b 12 14)))) (Number (sub b 14 16))
       (WeekDay T (numToString (Number (sub b 19 20)))) (sub b 20 22)"

definition outputChangeFields :: "tables \<Rightarrow> string \<Rightarrow> fields" where
  "outputChangeFields T b =
     OutputChangeUpdate (Number (sub b 0 3)) (if sub b 3 4 = ''1'' then ''On'' else ''Off'')"

definition outputStatusFields :: "tables \<Rightarrow> string \<Rightarrow> fields" where
  "outputStatusFields T b =
     OutputStatusReport
       (forBelow 0 208
          (\<lambda>i outputs. outputs @ [if sub b i (i + 1) = ''0'' then ''Off'' else ''On'']) [])"

text \<open>The loop \<open>for (let i = 0; i <= 96; i += 3)\<close> of the temperature reply.\<close>

function temperatureLoop :: "string \<Rightarrow> nat \<Rightarrow> jsnum list \<times> jsnum list
    \<Rightarrow> jsnum list \<times> jsnum list" where
  "temperatureLoop b i st =
     (if i \<le> 96
      then temperatureLoop b (i + 3)
             (if i < 48 then (fst st @ [subInt (Number (sub b i (i + 3))) 40], snd st)
              else if i < 96 then (fst st, snd st @ [subInt (Number (sub b i (i + 3))) 60])
              else st)
      else st)"
  by pat_completeness auto
termination
  by (relation "measure (\<lambda>(b, i, st). 97 - i)") auto

declare temperatureLoop.simps [simp del]

definition temperatureFields :: "tables \<Rightarrow> string \<Rightarrow> fields" where
  "temperatureFields T b =
     (let st = temperatureLoop b 0 ([], []) in TemperatureReply (fst st) (snd st))"

definition thermostatId :: "string \<Rightarrow> string" where
  "thermostatId b =
     (let thermNo = sub b 0 2
      in if thermNo = ''0'' then ''Invalid'' else numToString (parseInt thermNo 0))"

definition thermostatFields :: "tables \<Rightarrow> string \<Rightarrow> fields" where
  "thermostatFields T b =
     ThermostatReply (thermostatId b) (ThermostatMode T (sub b 2 3)) (sub b 3 4 = [])
       (if sub b 4 5 = ''0'' then ''Auto'' else ''On'')
       (Number (sub b 5 7)) (parseFloat (sub b 7 9)) (parseFloat (sub b 9 11))
       (let humidity = sub b 11 12 in if humidity = ''0'' then ''No Data'' else humidity)"

definition textDescriptionFields :: "tables \<Rightarrow> string \<Rightarrow> fields" where
  "textDescriptionFields T b =
     TextStringDescriptionReport
       (TextDescriptionType T (numToString (parseInt (sub b 0 2) 0)))
       (parseInt (sub b 2 5) 10)
       (trim (substring b 5 (int (length b) - 2)))"

definition taskChangeFields :: "tables \<Rightarrow> string \<Rightarrow> fields" where
  "taskChangeFields T b = TaskChangeUpdate (Number (sub b 0 3))"

definition zoneBypassFields :: "tables \<Rightarrow> string \<Rightarrow> fields" where
  "zoneBypassFields T b = ZoneBypass (Number (sub b 0 3)) (sub b 3 4 = ''1'')"

definition zoneDefinitionFields :: "tables \<Rightarrow> string \<Rightarrow> fields" where
  "zoneDefinitionFields T b =
     ZoneDefinitionReport
       (forBelow 0 208
          (\<lambda>i zones. (let def = sub b i (i + 1)
                       in zones @ [ZoneDefinition (int i + 1) (zoneDefinition T def)])) [])"

definition zoneVoltageFields :: "tables \<Rightarrow> string \<Rightarrow> fields" where
  "zoneVoltageFields T b = ZoneVoltageReport (Number (sub b 0 3)) (divTen (Number (sub b 3 6)))"

text \<open>
  The status nibble: \<open>status & 0x03\<close> names the physical status and \<open>status >> 2\<close> the
  logical state.
\<close>

definition physicalOf :: "tables \<Rightarrow> jsnum \<Rightarrow> enumval option" where
  "physicalOf T status = PhysicalStatus T (intToString (toInt32 status AND 3))"

definition logicalOf :: "tables \<Rightarrow> jsnum \<Rightarrow> enumval option" where
  "logicalOf T status = LogicalState T (intToString (drop_bit 2 (toInt32 status)))"

definition zoneChangeFields :: "tables \<Rightarrow> string \<Rightarrow> fields" where
  "zoneChangeFields T b =
     (let status = parseInt (sub b 3 4) 16
      in ZoneChangeUpdate (Number (sub b 0 3)) (physicalOf T status) (logicalOf T status))"

definition zoneStatusFields :: "tables \<Rightarrow> string \<Rightarrow> fields" where
  "zoneStatusFields T b =
     ZoneStatusReport
       (forUpTo 1 208
          (\<lambda>z zones. (let status = parseInt (sub b (z - 1) z) 16
                       in zones @ [ZoneStatus (int z) (physicalOf T status) (logicalOf T status)]))
          [])"

definition zonePartitionFields :: "tables \<Rightarrow> string \<Rightarrow> fields" where
  "zonePartitionFields T b =
     ZonePartitionReport
       (forUpTo 1 208
          (\<lambda>z zones. zones @ [ZonePartition (int z) (Number (sub b (z - 1) z))]) [])"

section \<open>The factory\<close>

text \<open>
  The message classes that \<open>lib/messages\<close> exports besides \<open>ElkMessage\<close>, by name: what
  each constructor computes from the body after the call of \<open>super (null, response)\<close>.
  A name that is no class of the module has no entry.
\<close>

definition messages :: "tables \<Rightarrow> string \<Rightarrow> (string \<Rightarrow> fields) option" where
  "messages T name =
     map_of
       [(''ArmingStatusReport'', armingStatusFields T),
        (''EntryExitTime'', entryExitFields T),
        (''KeypadAreasReport'', keypadAreasFields T),
        (''KeypadKeyChangeUpdate'', keypadKeyChangeFields T),
        (''LogDataUpdate'', logDataFields T),
        (''OutputChangeUpdate'', outputChangeFields T),
        (''OutputStatusReport'', outputStatusFields T),
        (''TemperatureReply'', temperatureFields T),
        (''ThermostatReply'', thermostatFields T),
        (''TextStringDescriptionReport'', textDescriptionFields T),
        (''TaskChangeUpdate'', taskChangeFields T),
        (''ZoneBypass'', zoneBypassFields T),
        (''ZoneDefinitionReport'', zoneDefinitionFields T),
        (''ZoneVoltageReport'', zoneVoltageFields T),
        (''ZoneChangeUpdate'', zoneChangeFields T),
        (''ZoneStatusReport'', zoneStatusFields T),
        (''ZonePartitionReport'', zonePartitionFields T)] name"

text \<open>\<open>new C (response)\<close> for a typed class \<open>C\<close> with the fields function \<open>f\<close>.\<close>

definition newTyped :: "tables \<Rightarrow> (string \<Rightarrow> fields) \<Rightarrow> string \<Rightarrow> error + decoded" where
  "newTyped T f response =
     (case newElkMessage (responseTypes T) Null (Str response) of
        Inl e \<Rightarrow> Inl e
      | Inr m \<Rightarrow> Inr (m, f (body m)))"

text \<open>A base message: \<open>new ElkMessage (command, response)\<close>.\<close>

definition newBase :: "tables \<Rightarrow> arg \<Rightarrow> arg \<Rightarrow> error + decoded" where
  "newBase T command response =
     (case newElkMessage (responseTypes T) command response of
        Inl e \<Rightarrow> Inl e
      | Inr m \<Rightarrow> Inr (m, NoFields))"

text \<open>
  \<open>getElkResponse\<close>.  The class found under the registered name is called with the
  response as its only argument; for the base class, whose first parameter is the command,
  that is \<open>new ElkMessage (response, undefined)\<close>.
\<close>

definition getElkResponse :: "tables \<Rightarrow> string \<Rightarrow> error + decoded" where
  "getElkResponse T response =
     (let type0 = substring response 2 4;
          messageType = responseTypes T type0
      in case messageType of
           None \<Rightarrow> newBase T Null (Str response)
         | Some name \<Rightarrow>
             if name = ''ElkMessage'' then newBase T (Str response) Undefined
             else (case messages T name of
                     Some f \<Rightarrow> newTyped T f response
                   | None \<Rightarrow> newBase T Null (Str response)))"

section \<open>Reference definitions of the specification\<close>


definition upperHexDigit :: "nat \<Rightarrow> char" where
  "upperHexDigit d = ''0123456789ABCDEF'' ! d"

definition twoDigitUpperHex :: "nat \<Rightarrow> string" where
  "twoDigitUpperHex v = [upperHexDigit (v div 16), upperHexDigit (v mod 16)]"


text \<open>Reading an upper-case hexadecimal numeral back as a number.\<close>

definition hexDigitValue :: "char \<Rightarrow> nat" where
  "hexDigitValue c = (let k = (of_char c :: nat) in if k < 58 then k - 48 else k - 55)"

definition hexValue :: "string \<Rightarrow> nat" where
  "hexValue s = foldl (\<lambda>a c. 16 * a + hexDigitValue c) 0 s"

text \<open>The string of the single character at an offset, empty beyond the end.\<close>

definition charAt :: "string \<Rightarrow> nat \<Rightarrow> string" where
  "charAt s i = (if i < length s then [s ! i] else [])"

text \<open>The ids of the entries of a report.\<close>

fun zoneStatusId :: "ZoneStatus \<Rightarrow> int" where
  "zoneStatusId (ZoneStatus i p l) = i"

fun zonePartitionId :: "ZonePartition \<Rightarrow> int" where
  "zonePartitionId (ZonePartition i p) = i"

fun zoneDefinitionId :: "ZoneDefinition \<Rightarrow> int" where
  "zoneDefinitionId (ZoneDefinition i d) = i"

text \<open>The collection a report holds (empty for a message of another class).\<close>

fun statusZones :: "fields \<Rightarrow> ZoneStatus list" where
  "statusZones (ZoneStatusReport zs) = zs"
| "statusZones _ = []"

fun definitionZones :: "fields \<Rightarrow> ZoneDefinition list" where
  "definitionZones (ZoneDefinitionReport zs) = zs"
| "definitionZones _ = []"

fun partitionZones :: "fields \<Rightarrow> ZonePartition list" where
  "partitionZones (ZonePartitionReport zs) = zs"
| "partitionZones _ = []"

fun outputsOf :: "fields \<Rightarrow> string list" where
  "outputsOf (OutputStatusReport os) = os"
| "outputsOf _ = []"

text \<open>
  Tables for concrete runs.  The labels are those the unit tests of the repository expect
  from their fixtures; the registry holds the seventeen type codes of the message layouts
  of the specification, each with the class that decodes it.
\<close>

definition fixtureTables :: tables where
  "fixtureTables =
     \<lparr> responseTypes = map_of
         [(''AS'', ''ArmingStatusReport''), (''EE'', ''EntryExitTime''),
          (''KA'', ''KeypadAreasReport''), (''KC'', ''KeypadKeyChangeUpdate''),
          (''LD'', ''LogDataUpdate''), (''CC'', ''OutputChangeUpdate''),
          (''CS'', ''OutputStatusReport''), (''LW'', ''TemperatureReply''),
          (''TR'', ''ThermostatReply''), (''SD'', ''TextStringDescriptionReport''),
          (''TC'', ''TaskChangeUpdate''), (''ZB'', ''ZoneBypass''),
          (''ZD'', ''ZoneDefinitionReport''), (''ZV'', ''ZoneVoltageReport''),
          (''ZC'', ''ZoneChangeUpdate''), (''ZS'', ''ZoneStatusReport''),
          (''ZP'', ''ZonePartitionReport'')],
       armStatus = map_of [(''1'', ''Armed Away'')],
       armUpState = map_of [(''4'', ''Armed Fully'')],
       alarmState = map_of [(''3'', ''Fire'')],
       zoneDefinition = map_of [(''1'', ''Burglar Entry/Exit 1''), (''6'', ''Burglar Interior Night'')],
       EventType = map_of [(''1193'', ''AREA 3 IS ARMED STAY'')],
       TimerType = map_of [(''0'', EStr ''Exit'')],
       Key = map_of [(''11'', EStr ''Asterisk'')],
       IlluminationStatus = map_of [(''0'', EStr ''Off''), (''1'', EStr ''On''), (''2'', EStr ''Blinking'')],
       Month = map_of [(''6'', EStr ''June'')],
       WeekDay = map_of [(''5'', EStr ''Thursday'')],
       ThermostatMode = map_of [(''2'', EStr ''Cool'')],
       TextDescriptionType = map_of [(''1'', EStr ''Area'')],
       PhysicalStatus = map_of [(''2'', EStr ''EOL'')],
       LogicalState = map_of [(''0'', EStr ''Normal'')] \<rparr>"

section \<open>The client: listeners, timers and promises\<close>

text \<open>
  The client runs on one event loop.  Its state is kept in a record: the one-shot
  listeners the client has registered on itself with \<open>once\<close>, the pending timers, the
  promises it has handed out, the text it has written to the connection, and the events it
  has emitted, in order.  The subscribers of the application are not part of the model:
  an event handed to them is an entry of \<open>emitted\<close>.
\<close>

text \<open>The argument of an emitted event: a decoded message, a caught error, or nothing.\<close>

datatype payload = Message decoded | Caught error | Nothing

text \<open>
  A promise is pending or settled: resolved with a message, resolved with the list of
  collected descriptions, or rejected with a text.
\<close>

datatype outcome = Pending | ResolvedWith decoded | ResolvedAll "decoded list" | Rejected string

text \<open>
  The closure of \<open>recursiveCall\<close> inside \<open>requestTextDescriptionAll\<close>: the promise of the
  call (which also names its array \<open>items\<close>), the requested id, the description type and
  the timeout.
\<close>

datatype closure = Closure nat jsnum int nat

text \<open>
  The functions the client registers.  \<open>Resolve p\<close> is \<open>(response) => resolve (response)\<close>
  and \<open>DescribeReply c\<close> is \<open>(response) => cb (response)\<close> of \<open>getDescription\<close>;
  \<open>Reject p text\<close> is \<open>function () { reject (text) }\<close> and \<open>DescribeTimeout c\<close> is
  \<open>function () { cb ({ error: ... }) }\<close>.
\<close>

datatype listener = Resolve nat | DescribeReply closure

datatype timerCallback = Reject nat string | DescribeTimeout closure

record world =
  listeners :: "(string \<times> listener) list"
  timers :: "(nat \<times> timerCallback) list"
  promises :: "nat \<Rightarrow> outcome"
  items :: "nat \<Rightarrow> decoded list"
  nextPromise :: nat
  written :: "string list"
  emitted :: "(string \<times> payload) list"
  clock :: nat
  isAuthorized :: bool
  destroyed :: bool

text \<open>The second argument of \<open>leftPad\<close> is a width, the third a string or a number.\<close>

datatype padding = PadString string | PadNumber int

record options =
  secure :: bool
  userName :: "string option"
  password :: "string option"

text \<open>
  What the client is built from besides its code: the tables, the connection options,
  \<open>leftPad\<close> of \<open>lib/utils\<close> and \<open>textDescriptionMaxRange\<close> of \<open>lib/types\<close> (both absent,
  so parameters).
\<close>

record config =
  lookup :: tables
  opts :: options
  leftPad :: "string \<Rightarrow> nat \<Rightarrow> padding \<Rightarrow> string"
  textDescriptionMaxRange :: "string \<rightharpoonup> int"

text \<open>Settling a promise has an effect only while it is pending.\<close>

definition settle :: "nat \<Rightarrow> outcome \<Rightarrow> world \<Rightarrow> world" where
  "settle p v w = (if promises w p = Pending then w \<lparr> promises := (promises w) (p := v) \<rparr> else w)"

definition newPromise :: "world \<Rightarrow> nat \<times> world" where
  "newPromise w =
     (nextPromise w,
      w \<lparr> promises := (promises w) (nextPromise w := Pending),
          items := (items w) (nextPromise w := []),
          nextPromise := nextPromise w + 1 \<rparr>)"

definition once :: "string \<Rightarrow> listener \<Rightarrow> world \<Rightarrow> world" where
  "once ev cb w = w \<lparr> listeners := listeners w @ [(ev, cb)] \<rparr>"

definition connectionWrite :: "string \<Rightarrow> world \<Rightarrow> world" where
  "connectionWrite text w = w \<lparr> written := written w @ [text] \<rparr>"

text \<open>
  \<open>setTimeout\<close>: the timer is due when its delay has passed; the runtime replaces a delay
  below 1 or above 2147483647 by 1.
\<close>

definition timerDelay :: "nat \<Rightarrow> nat" where
  "timerDelay t = (if 1 \<le> t \<and> t \<le> 2147483647 then t else 1)"

definition setTimeout :: "timerCallback \<Rightarrow> nat \<Rightarrow> world \<Rightarrow> world" where
  "setTimeout cb t w = w \<lparr> timers := timers w @ [(clock w + timerDelay t, cb)] \<rparr>"

definition CRLF :: string where
  "CRLF = [char_of (13 :: nat), char_of (10 :: nat)]"

text \<open>Sending a command: \<open>connection.write (elk.message + '\r\n')\<close>.\<close>

definition send :: "string \<Rightarrow> world \<Rightarrow> world" where
  "send command w = connectionWrite (message (fromCommand command) @ CRLF) w"

text \<open>
  The request functions share one body: a promise whose executor registers a one-shot
  listener that resolves it, sends the command and starts a timer that rejects it.
\<close>

definition request :: "string \<Rightarrow> string \<Rightarrow> string \<Rightarrow> nat \<Rightarrow> world \<Rightarrow> nat \<times> world" where
  "request ev command text timeout w =
     (let (p, w1) = newPromise w;
          w2 = once ev (Resolve p) w1;
          w3 = send command w2;
          w4 = setTimeout (Reject p text) timeout w3
      in (p, w4))"

definition requestArmingStatus :: "nat \<Rightarrow> world \<Rightarrow> nat \<times> world" where
  "requestArmingStatus timeout =
     request ''AS'' ''as'' ''Timout occured before Arming Status (as) was received.'' timeout"

definition requestAreas :: "nat \<Rightarrow> world \<Rightarrow> nat \<times> world" where
  "requestAreas timeout =
     request ''KA'' ''ka'' ''Timout occured before Area request (ka) was received.'' timeout"

definition requestOutputStatusReport :: "nat \<Rightarrow> world \<Rightarrow> nat \<times> world" where
  "requestOutputStatusReport timeout =
     request ''CS'' ''cs'' ''Timout occured before Control Output Status (cs) was received.'' timeout"

definition requestSystemStatus :: "nat \<Rightarrow> world \<Rightarrow> nat \<times> world" where
  "requestSystemStatus timeout =
     request ''SS'' ''ss'' ''Timout occured before system status request (ss) was received.'' timeout"

definition requestZoneDefinitionReport :: "nat \<Rightarrow> world \<Rightarrow> nat \<times> world" where
  "requestZoneDefinitionReport timeout =
     request ''ZD'' ''zd'' ''Timout occured before Zone Definition (zd) was received.'' timeout"

definition requestZonePartitionReport :: "nat \<Rightarrow> world \<Rightarrow> nat \<times> world" where
  "requestZonePartitionReport timeout =
     request ''ZP'' ''zp'' ''Timout occured before Zone Partition (zp) was received.'' timeout"

definition requestZoneStatusReport :: "nat \<Rightarrow> world \<Rightarrow> nat \<times> world" where
  "requestZoneStatusReport timeout =
     request ''ZS'' ''zs'' ''Timout occured before Zone Status Report (zs) was received.'' timeout"

text \<open>The command of a text description request.\<close>

definition describeCommand :: "config \<Rightarrow> jsnum \<Rightarrow> int \<Rightarrow> string" where
  "describeCommand C ident ty =
     ''sd'' @ leftPad C (intToString ty) 2 (PadNumber 0)
            @ leftPad C (numToString ident) 3 (PadNumber 0)"

definition requestTextDescription :: "config \<Rightarrow> jsnum \<Rightarrow> int \<Rightarrow> nat \<Rightarrow> world \<Rightarrow> nat \<times> world" where
  "requestTextDescription C ident ty timeout =
     request ''SD'' (describeCommand C ident ty)
       ''Timout occured before Text Description (sd) was received.'' timeout"

definition requestZoneVoltageReport :: "config \<Rightarrow> jsnum \<Rightarrow> nat \<Rightarrow> world \<Rightarrow> nat \<times> world" where
  "requestZoneVoltageReport C ident timeout =
     request ''ZV'' (''zv'' @ leftPad C (numToString ident) 3 (PadNumber 0))
       ''Timout occured before Zone Voltage Report (zv) was received.'' timeout"

text \<open>\<open>getDescription\<close> with the closure \<open>c\<close> as its callback \<open>cb\<close>.\<close>

definition getDescription :: "config \<Rightarrow> closure \<Rightarrow> world \<Rightarrow> world" where
  "getDescription C c w =
     (case c of Closure p ident ty timeout \<Rightarrow>
        (let w1 = once ''SD'' (DescribeReply c) w;
             w2 = send (describeCommand C ident ty) w1
         in setTimeout (DescribeTimeout c) timeout w2))"

text \<open>
  \<open>data.id\<close> as a number: the field \<open>id\<close> of the message when its class has one
  (a thermostat reply has it as a string), \<open>NaN\<close> for \<open>undefined\<close>.
\<close>

fun dataId :: "fields \<Rightarrow> jsnum" where
  "dataId (LogDataUpdate logIndex event ident areaId hour minute month day dayOfWeek year) = ident"
| "dataId (OutputChangeUpdate ident state) = ident"
| "dataId (ThermostatReply ident mode hold fan temperature heat cool humidity) = Number ident"
| "dataId (TextStringDescriptionReport descriptionType ident description) = ident"
| "dataId (ZoneBypass ident bypassed) = ident"
| "dataId (ZoneVoltageReport ident voltage) = ident"
| "dataId (ZoneChangeUpdate ident physicalStatus logicalState) = ident"
| "dataId _ = NaN"

text \<open>
  \<open>textDescriptionMaxRange [TextDescriptionType [type]]\<close>: the name of the type in the
  enumeration, then the entry of the table under that name.
\<close>

definition maxRange :: "config \<Rightarrow> int \<Rightarrow> int option" where
  "maxRange C ty =
     textDescriptionMaxRange C
       (case TextDescriptionType (lookup C) (intToString ty) of
          None \<Rightarrow> ''undefined''
        | Some (EStr name) \<Rightarrow> name
        | Some (ENum n) \<Rightarrow> intToString n)"

text \<open>\<open>id < max\<close>, false when \<open>max\<close> is \<open>undefined\<close>.\<close>

definition belowMax :: "jsnum \<Rightarrow> int option \<Rightarrow> bool" where
  "belowMax ident m = (case m of None \<Rightarrow> False | Some k \<Rightarrow> numLess ident (num k))"

text \<open>
  The callback that \<open>recursiveCall\<close> passes to \<open>getDescription\<close>, called with a response
  (\<open>Inr\<close>) or with the object \<open>{ error: text }\<close> (\<open>Inl\<close>).  After \<open>reject\<close> the function
  goes on: \<open>data.id\<close> of the error object is \<open>undefined\<close>, so the other branch runs.
\<close>

definition recursiveCallback :: "config \<Rightarrow> closure \<Rightarrow> string + decoded \<Rightarrow> world \<Rightarrow> world" where
  "recursiveCallback C c data w =
     (case c of Closure p ident ty timeout \<Rightarrow>
        (case data of
           Inl text \<Rightarrow>
             (let w1 = (if text \<noteq> [] then settle p (Rejected text) w else w)
              in settle p (ResolvedAll (items w1 p)) w1)
         | Inr m \<Rightarrow>
             if numLess (num 0) (dataId (snd m)) \<and> belowMax ident (maxRange C ty)
             then (let w1 = w \<lparr> items := (items w) (p := items w p @ [m]) \<rparr>
                   in getDescription C (Closure p (addInt (dataId (snd m)) 1) ty timeout) w1)
             else settle p (ResolvedAll (items w p)) w))"


definition describeTimeoutText :: string where
  "describeTimeoutText = ''Timout occured before Text Description (sd) was received.''"

fun callListener :: "config \<Rightarrow> listener \<Rightarrow> decoded \<Rightarrow> world \<Rightarrow> world" where
  "callListener C (Resolve p) m w = settle p (ResolvedWith m) w"
| "callListener C (DescribeReply c) m w = recursiveCallback C c (Inr m) w"

fun callTimer :: "config \<Rightarrow> timerCallback \<Rightarrow> world \<Rightarrow> world" where
  "callTimer C (Reject p text) w = settle p (Rejected text) w"
| "callTimer C (DescribeTimeout c) w = recursiveCallback C c (Inl describeTimeoutText) w"

text \<open>
  Emitting a message on a channel: the subscribers get it, and every one-shot listener
  that was registered on the channel when the emission began is removed and then called,
  in the order of registration.
\<close>

definition fireListener :: "config \<Rightarrow> string \<Rightarrow> decoded \<Rightarrow> world \<Rightarrow> listener \<Rightarrow> world" where
  "fireListener C ev m w cb = callListener C cb m (w \<lparr> listeners := remove1 (ev, cb) (listeners w) \<rparr>)"

definition emit :: "config \<Rightarrow> string \<Rightarrow> decoded \<Rightarrow> world \<Rightarrow> world" where
  "emit C ev m w =
     (let w1 = w \<lparr> emitted := emitted w @ [(ev, Message m)] \<rparr>;
          snapshot = map snd (filter (\<lambda>l. fst l = ev) (listeners w1))
      in foldl (fireListener C ev m) w1 snapshot)"

text \<open>
  The other events (\<open>error\<close>, \<open>connected\<close>) only reach subscribers: the client registers
  listeners under two-letter type codes only.
\<close>

definition report :: "string \<Rightarrow> payload \<Rightarrow> world \<Rightarrow> world" where
  "report ev arg w = w \<lparr> emitted := emitted w @ [(ev, arg)] \<rparr>"

text \<open>
  Time passing: the clock advances and the timers that are due fire in the order of
  their due times, each removed before its function is called.
\<close>

definition fireTimer :: "config \<Rightarrow> world \<Rightarrow> nat \<times> timerCallback \<Rightarrow> world" where
  "fireTimer C w tc = callTimer C (snd tc) (w \<lparr> timers := remove1 tc (timers w) \<rparr>)"

definition elapse :: "config \<Rightarrow> nat \<Rightarrow> world \<Rightarrow> world" where
  "elapse C d w =
     (let w1 = w \<lparr> clock := clock w + d \<rparr>;
          due = sort_key fst (filter (\<lambda>tc. fst tc \<le> clock w1) (timers w1))
      in foldl (fireTimer C) w1 due)"

section \<open>The dispatcher: \<open>onDataReceived\<close>\<close>

text \<open>\<open>indexOf (needle) !== -1\<close>.\<close>

fun contains :: "string \<Rightarrow> string \<Rightarrow> bool" where
  "contains needle [] = (needle = [])"
| "contains needle (c # s) = (take (length needle) (c # s) = needle \<or> contains needle s)"

text \<open>\<open>split ('\n')\<close>: the pieces between line feeds; one piece when there is none.\<close>

fun splitLines :: "string \<Rightarrow> string list" where
  "splitLines [] = [[]]"
| "splitLines (c # s) =
     (if c = char_of (10 :: nat) then [] # splitLines s
      else (case splitLines s of [] \<Rightarrow> [[c]] | l # ls \<Rightarrow> (c # l) # ls))"

text \<open>\<open>replace ('\r', '')\<close> drops the first carriage return.\<close>

definition dropCarriageReturn :: "string \<Rightarrow> string" where
  "dropCarriageReturn s = remove1 (char_of (13 :: nat)) s"

text \<open>
  The body of \<open>forEach\<close> inside \<open>try\<close>: a line that fails to decode throws, which ends
  the loop; the error is what \<open>catch\<close> receives.
\<close>

fun forEachLine :: "config \<Rightarrow> string list \<Rightarrow> world \<Rightarrow> error option \<times> world" where
  "forEachLine C [] w = (None, w)"
| "forEachLine C (l # ls) w =
     (case getElkResponse (lookup C) (dropCarriageReturn l) of
        Inl e \<Rightarrow> (Some e, w)
      | Inr elkMessage \<Rightarrow>
          forEachLine C ls (emit C (type (fst elkMessage)) elkMessage (emit C ''*'' elkMessage w)))"

definition textOf :: "string option \<Rightarrow> string" where
  "textOf s = (case s of None \<Rightarrow> ''undefined'' | Some t \<Rightarrow> t)"

definition onDataReceived :: "config \<Rightarrow> string \<Rightarrow> world \<Rightarrow> world" where
  "onDataReceived C data w =
     (if data = ''Username:'' then connectionWrite (textOf (userName (opts C)) @ CRLF) w
      else if contains ''Password:'' data then connectionWrite (textOf (password (opts C)) @ CRLF) w
      else if contains ''Elk-M1XEP: Login successful.'' data
      then report ''connected'' Nothing (w \<lparr> isAuthorized := True \<rparr>)
      else if secure (opts C) \<and> (\<not> isAuthorized w \<or> substring data 0 2 = ''**'') then w
      else (case forEachLine C (splitLines (trim data)) w of
              (None, w1) \<Rightarrow> w1
            | (Some e, w1) \<Rightarrow> report ''error'' (Caught e) w1))"

text \<open>\<open>disconnect\<close> destroys the connection.\<close>

definition disconnect :: "world \<Rightarrow> world" where
  "disconnect w = w \<lparr> destroyed := True \<rparr>"

section \<open>Runs of the event loop\<close>

text \<open>What the event loop delivers to the client: a chunk of data, or time passing.\<close>

datatype event = Data string | Elapse nat

fun step :: "config \<Rightarrow> world \<Rightarrow> event \<Rightarrow> world" where
  "step C w (Data d) = onDataReceived C d w"
| "step C w (Elapse d) = elapse C d w"

definition run :: "config \<Rightarrow> event list \<Rightarrow> world \<Rightarrow> world" where
  "run C evs w = foldl (step C) w evs"











text \<open>The text description report that a frame decodes to, for concrete runs.\<close>

definition reportOf :: "string \<Rightarrow> decoded" where
  "reportOf frame = (frameFields frame, textDescriptionFields fixtureTables (body (frameFields frame)))"


text \<open>The promise that a registered function settles.\<close>

fun listenerPromise :: "listener \<Rightarrow> nat" where
  "listenerPromise (Resolve p) = p"
| "listenerPromise (DescribeReply (Closure p ident ty timeout)) = p"

fun timerPromise :: "timerCallback \<Rightarrow> nat" where
  "timerPromise (Reject p text) = p"
| "timerPromise (DescribeTimeout (Closure p ident ty timeout)) = p"

text \<open>No registered function settles the promise \<open>p\<close>: true of a promise not yet made.\<close>

definition unreferenced :: "nat \<Rightarrow> world \<Rightarrow> bool" where
  "unreferenced p w =
     (list_all (\<lambda>l. listenerPromise (snd l) \<noteq> p) (listeners w)
      \<and> list_all (\<lambda>t. timerPromise (snd t) \<noteq> p) (timers w))"

text \<open>
  The state of a request between its start and the end of the run: every registered
  function for its promise is its own listener or its own timer; while the promise is
  pending both are still registered; and a settled promise holds a message or the text
  of the request's timeout, the latter only once the timer is due.
\<close>

definition awaiting :: "nat \<Rightarrow> string \<Rightarrow> string \<Rightarrow> nat \<Rightarrow> world \<Rightarrow> bool" where
  "awaiting p ev text due w =
     ((\<forall>l \<in> set (listeners w). listenerPromise (snd l) = p \<longrightarrow> l = (ev, Resolve p))
      \<and> (\<forall>t \<in> set (timers w). timerPromise (snd t) = p \<longrightarrow> t = (due, Reject p text))
      \<and> (promises w p = Pending \<longrightarrow>
            (ev, Resolve p) \<in> set (listeners w) \<and> (due, Reject p text) \<in> set (timers w))
      \<and> (promises w p \<noteq> Pending \<longrightarrow>
            (\<exists>m. promises w p = ResolvedWith m) \<or> (promises w p = Rejected text \<and> due \<le> clock w)))"

section \<open>Properties of the frame codec\<close>



lemma upper_hexDigit: "d < 16 \<Longrightarrow> upperChar (hexDigit d) = upperHexDigit d"
proof -
  assume "d < 16"
  then have "d \<in> {0,1,2,3,4,5,6,7,8,9,10,11,12,13,14,15}" by (simp; arith)
  then show ?thesis
    by (elim insertE emptyE; hypsubst; code_simp)
qed

lemma hexDigitValue_upper: "d < 16 \<Longrightarrow> hexDigitValue (upperChar (hexDigit d)) = d"
proof -
  assume "d < 16"
  then have "d \<in> {0,1,2,3,4,5,6,7,8,9,10,11,12,13,14,15}" by (simp; arith)
  then show ?thesis
    by (elim insertE emptyE; hypsubst; code_simp)
qed

lemma hex2_small: "v < 256 \<Longrightarrow> hex2 v = twoDigitUpperHex v"
proof (cases "v < 16")
  case True
  then have "toString16 v = [hexDigit v]" by (subst toString16.simps) simp
  with True show ?thesis
    by (simp add: hex2_def toUpperCase_def twoDigitUpperHex_def upper_hexDigit)
       (simp add: upperHexDigit_def)
next
  case False
  assume "v < 256"
  with False have d: "v div 16 < 16" "v mod 16 < 16" by auto
  have "toString16 v = toString16 (v div 16) @ [hexDigit (v mod 16)]"
    using False by (subst toString16.simps) simp
  also have "toString16 (v div 16) = [hexDigit (v div 16)]"
    using d by (subst toString16.simps) simp
  finally show ?thesis
    using d by (simp add: hex2_def toUpperCase_def twoDigitUpperHex_def upper_hexDigit)
qed

lemma and255_mod: "(x::int) AND 255 = x mod 256"
proof -
  have "x AND 255 = take_bit 8 x" by (simp add: take_bit_eq_mask mask_eq_exp_minus_1)
  then show ?thesis by (simp add: take_bit_eq_mod)
qed

lemma and255_bound: "nat ((x::int) AND 255) < 256"
  by (simp add: and255_mod)


lemma length_computeChecksum: "length (computeChecksum s) = 2"
  by (simp add: computeChecksum_def Let_def hex2_small and255_bound twoDigitUpperHex_def)

lemma length_toString16: "0 < length (toString16 n)"
  by (subst toString16.simps) simp

lemma hexValue_toString16: "hexValue (toUpperCase (toString16 n)) = n"
proof (induction n rule: toString16.induct)
  case (1 n)
  show ?case
  proof (cases "n < 16")
    case True
    then show ?thesis
      by (subst toString16.simps) (simp add: hexValue_def toUpperCase_def hexDigitValue_upper)
  next
    case False
    then have "hexValue (toUpperCase (toString16 (n div 16))) = n div 16" using 1 by simp
    then show ?thesis using False
      by (subst toString16.simps) (simp add: hexValue_def toUpperCase_def hexDigitValue_upper)
  qed
qed

lemma hexValue_zero: "hexValue (CHR ''0'' # s) = hexValue s"
  by (simp add: hexValue_def hexDigitValue_def)





lemma length_hex2: "2 \<le> length (hex2 n)"
proof -
  have pos: "0 < length (toString16 n)" by (rule length_toString16)
  show ?thesis
  proof (cases "length (toString16 n) = 1")
    case True
    then show ?thesis by (simp add: hex2_def Let_def toUpperCase_def)
  next
    case False
    with pos have "2 \<le> length (toString16 n)" by arith
    with False show ?thesis by (simp add: hex2_def Let_def toUpperCase_def)
  qed
qed

lemma hexValue_hex2: "hexValue (hex2 n) = n"
  by (simp add: hex2_def Let_def hexValue_toString16 hexValue_zero)

lemma encode_fields:
  assumes "length typeCode = 2"
  shows "type (encode (typeCode @ args)) = typeCode"
    and "body (encode (typeCode @ args)) = args @ ''00''"
    and "hexLength (encode (typeCode @ args)) = hex2 (2 + length (typeCode @ args @ ''00''))"
proof -
  have t: "substring (typeCode @ args) 0 2 = typeCode"
    using assms by (simp add: substring_def Let_def)
  have b: "substring (typeCode @ args) 2 (int (length (typeCode @ args))) = args"
    using assms by (simp add: substring_def Let_def)
  show "type (encode (typeCode @ args)) = typeCode"
    and "body (encode (typeCode @ args)) = args @ ''00''"
    using t b by (simp_all add: encode_def fromCommand_def Let_def)
  show "hexLength (encode (typeCode @ args)) = hex2 (2 + length (typeCode @ args @ ''00''))"
    using t b by (simp add: encode_def fromCommand_def Let_def hex2_def add.commute)
qed

lemma encode_checkSum:
  "checkSum (encode command)
     = computeChecksum (hexLength (encode command) @ type (encode command) @ body (encode command))"
  by (simp add: encode_def fromCommand_def Let_def calcChecksum_def)

lemma encode_message:
  "message (encode command)
     = hexLength (encode command) @ type (encode command) @ body (encode command)
       @ checkSum (encode command)"
  by (simp add: encode_def fromCommand_def Let_def)

text \<open>
  C1 (as the code has it).  For a two-character type code and any arguments, the encoder
  appends the suffix 00 to the arguments and sets the length field to the upper-case
  hexadecimal numeral, padded with 0 to two digits at least, of
  \<open>2 + len (typeCode + suffixed body)\<close>: the number of characters that follow the
  length field (type code, body and the two checksum characters), the length field itself
  not counted.
\<close>

theorem encode_length_field:
  assumes "length typeCode = 2"
  shows "type (encode (typeCode @ args)) = typeCode
       \<and> body (encode (typeCode @ args)) = args @ ''00''
       \<and> hexLength (encode (typeCode @ args)) = hex2 (2 + length (typeCode @ args @ ''00''))
       \<and> 2 \<le> length (hexLength (encode (typeCode @ args)))
       \<and> hexValue (hexLength (encode (typeCode @ args))) = 2 + length (typeCode @ args @ ''00'')
       \<and> message (encode (typeCode @ args))
            = hexLength (encode (typeCode @ args)) @ typeCode @ args @ ''00''
              @ checkSum (encode (typeCode @ args))
       \<and> hexValue (hexLength (encode (typeCode @ args)))
            = length (typeCode @ args @ ''00'' @ checkSum (encode (typeCode @ args)))"
  using encode_fields [OF assms, of args] encode_message [of "typeCode @ args"]
    encode_checkSum [of "typeCode @ args"] length_hex2 hexValue_hex2 length_computeChecksum
  by simp

theorem encode_length_field_witness:
  "length ''zb'' = 2
   \<and> hexLength (encode (''zb'' @ ''0011001234'')) = ''10''
   \<and> hexValue (hexLength (encode (''zb'' @ ''0011001234'')))
       = length (''zb'' @ ''0011001234'' @ ''00'' @ checkSum (encode (''zb'' @ ''0011001234'')))"
proof -
  have h: "length ''zb'' = 2" by simp
  have x: "hex2 (2 + length (''zb'' @ ''0011001234'' @ ''00'')) = ''10''" by code_simp
  note w = encode_length_field [OF h, of "''0011001234''"]
  from w have "hexLength (encode (''zb'' @ ''0011001234''))
      = hex2 (2 + length (''zb'' @ ''0011001234'' @ ''00''))"
    by blast
  from this x have 1: "hexLength (encode (''zb'' @ ''0011001234'')) = ''10''" by (rule trans)
  from w have 2: "hexValue (hexLength (encode (''zb'' @ ''0011001234'')))
       = length (''zb'' @ ''0011001234'' @ ''00'' @ checkSum (encode (''zb'' @ ''0011001234'')))"
    by blast
  from h 1 2 show ?thesis by blast
qed

text \<open>
  C1 as stated fails: for the command \<open>as\<close> the frame has eight characters, but the
  length field is 06, not the numeral of \<open>4 + len (typeCode + suffixed body) = 8\<close>.
\<close>

theorem encode_length_field_counterexample:
  "hexLength (encode ''as'') = ''06''
   \<and> hex2 (4 + length (type (encode ''as'') @ body (encode ''as''))) = ''08''
   \<and> length (message (encode ''as'')) = 8"
  by code_simp



text \<open>
  C3.  Decoding a received frame verifies the checksum exactly when the type code (the
  characters at offsets 2 and 3) is absent from the registry: a frame with a registered
  type code is accepted whatever its checksum; a frame with an unregistered type code is
  accepted when the received checksum equals the recomputed one and is refused with the
  checksum-mismatch error otherwise.
\<close>

theorem decode_checksum_policy:
  "(rt (type (frameFields r)) \<noteq> None \<longrightarrow>
       newElkMessage rt Null (Str r) = Inr (frameFields r))
   \<and> (rt (type (frameFields r)) = None \<longrightarrow>
       (if checkSum (frameFields r)
             = computeChecksum (hexLength (frameFields r) @ type (frameFields r)
                 @ body (frameFields r))
        then newElkMessage rt Null (Str r) = Inr (frameFields r)
        else newElkMessage rt Null (Str r) = Inl (checksumError r)))
   \<and> type (frameFields r) = substring r 2 4
   \<and> checkSum (frameFields r) = substring r (int (length r) - 2) (int (length r))"
  by (simp add: fromResponse_def frameFields_def Let_def validChecksum_def calcChecksum_def)

theorem decode_checksum_policy_witness:
  "[''ZC'' \<mapsto> ''ZoneChangeUpdate''] (type (frameFields ''0AZC002200FF'')) \<noteq> None
   \<and> newElkMessage [''ZC'' \<mapsto> ''ZoneChangeUpdate''] Null (Str ''0AZC002200FF'')
       = Inr (frameFields ''0AZC002200FF'')
   \<and> Map.empty (type (frameFields ''0AZC002200FF'')) = (None :: string option)
   \<and> newElkMessage Map.empty Null (Str ''0AZC002200FF'') = Inl (checksumError ''0AZC002200FF'')
   \<and> newElkMessage Map.empty Null (Str ''0AZC002200CE'') = Inr (frameFields ''0AZC002200CE'')"
proof -
  have t: "[''ZC'' \<mapsto> ''ZoneChangeUpdate''] (type (frameFields ''0AZC002200FF'')) \<noteq> None"
    by code_simp
  have e: "Map.empty (type (frameFields r)) = (None :: string option)" for r
    by simp
  have c1: "checkSum (frameFields ''0AZC002200FF'')
             \<noteq> computeChecksum (hexLength (frameFields ''0AZC002200FF'')
                  @ type (frameFields ''0AZC002200FF'') @ body (frameFields ''0AZC002200FF''))"
    by code_simp
  have c2: "checkSum (frameFields ''0AZC002200CE'')
             = computeChecksum (hexLength (frameFields ''0AZC002200CE'')
                  @ type (frameFields ''0AZC002200CE'') @ body (frameFields ''0AZC002200CE''))"
    by code_simp
  from decode_checksum_policy [of "[''ZC'' \<mapsto> ''ZoneChangeUpdate'']" "''0AZC002200FF''"] t
  have 1: "newElkMessage [''ZC'' \<mapsto> ''ZoneChangeUpdate''] Null (Str ''0AZC002200FF'')
             = Inr (frameFields ''0AZC002200FF'')"
    by blast
  from decode_checksum_policy [of Map.empty "''0AZC002200FF''"] e c1
  have 2: "newElkMessage Map.empty Null (Str ''0AZC002200FF'') = Inl (checksumError ''0AZC002200FF'')"
    by (simp only: if_False simp_thms)
  from decode_checksum_policy [of Map.empty "''0AZC002200CE''"] e c2
  have 3: "newElkMessage Map.empty Null (Str ''0AZC002200CE'') = Inr (frameFields ''0AZC002200CE'')"
    by (simp only: if_True simp_thms)
  from t e 1 2 3 show ?thesis by blast
qed


section \<open>Properties of the decoders\<close>

lemma forBelow_append:
  "forBelow i n (\<lambda>j acc. acc @ [g j]) acc = acc @ map g [i..<n]"
proof (induction i n "\<lambda>j acc. acc @ [g j]" acc rule: forBelow.induct)
  case (1 i n acc)
  show ?case
  proof (cases "i < n")
    case True
    with 1 show ?thesis
      by (subst forBelow.simps) (simp add: upt_conv_Cons)
  next
    case False
    then show ?thesis by (subst forBelow.simps) simp
  qed
qed

lemma forUpTo_append:
  "forUpTo i n (\<lambda>j acc. acc @ [g j]) acc = acc @ map g [i..<Suc n]"
proof (induction i n "\<lambda>j acc. acc @ [g j]" acc rule: forUpTo.induct)
  case (1 i n acc)
  show ?case
  proof (cases "i \<le> n")
    case True
    then have "[i..<Suc n] = i # [Suc i..<Suc n]" by (simp add: upt_conv_Cons)
    with True 1 show ?thesis
      by (subst forUpTo.simps) simp
  next
    case False
    then show ?thesis by (subst forUpTo.simps) simp
  qed
qed

lemma sub_charAt: "sub b i (i + 1) = charAt b i"
  by (auto simp: sub_def substring_def charAt_def Let_def min_def max_def take_Suc_conv_app_nth
      Cons_nth_drop_Suc [symmetric] nat_add_distrib)

lemma sub_charAt_Suc: "sub b i (Suc i) = charAt b i"
  using sub_charAt [of b i] by simp

lemma sub_charAt': "Suc 0 \<le> z \<Longrightarrow> sub b (z - Suc 0) z = charAt b (z - Suc 0)"
  using sub_charAt [of b "z - 1"] by simp

lemma outputStatus_eq:
  "outputStatusFields T b
     = OutputStatusReport (map (\<lambda>i. if charAt b i = ''0'' then ''Off'' else ''On'') [0..<208])"
  by (simp add: outputStatusFields_def forBelow_append sub_charAt_Suc)

lemma zoneDefinition_eq:
  "zoneDefinitionFields T b
     = ZoneDefinitionReport (map (\<lambda>i. ZoneDefinition (int i + 1) (zoneDefinition T (charAt b i))) [0..<208])"
  by (simp add: zoneDefinitionFields_def forBelow_append sub_charAt_Suc Let_def)

lemma zoneStatus_eq:
  "zoneStatusFields T b
     = ZoneStatusReport (map (\<lambda>z. ZoneStatus (int z) (physicalOf T (parseInt (charAt b (z - 1)) 16))
          (logicalOf T (parseInt (charAt b (z - 1)) 16))) [1..<209])"
proof -
  have "map (\<lambda>z. ZoneStatus (int z) (physicalOf T (parseInt (sub b (z - 1) z) 16))
          (logicalOf T (parseInt (sub b (z - 1) z) 16))) [1..<209]
      = map (\<lambda>z. ZoneStatus (int z) (physicalOf T (parseInt (charAt b (z - 1)) 16))
          (logicalOf T (parseInt (charAt b (z - 1)) 16))) [1..<209]"
    by (rule map_cong) (simp_all add: sub_charAt')
  then show ?thesis
    by (simp add: zoneStatusFields_def forUpTo_append Let_def)
qed

lemma zonePartition_eq:
  "zonePartitionFields T b
     = ZonePartitionReport (map (\<lambda>z. ZonePartition (int z) (Number (charAt b (z - 1)))) [1..<209])"
proof -
  have "map (\<lambda>z. ZonePartition (int z) (Number (sub b (z - 1) z))) [1..<209]
      = map (\<lambda>z. ZonePartition (int z) (Number (charAt b (z - 1)))) [1..<209]"
    by (rule map_cong) (simp_all add: sub_charAt')
  then show ?thesis
    by (simp add: zonePartitionFields_def forUpTo_append)
qed

lemma numLessEq_num: "numLessEq (num a) (num b) = (a \<le> b)"
  by (auto simp: numLessEq_def num_def)

lemma numEq_num: "numEq (num a) (num b) = (a = b)"
  by (simp add: num_def)

lemma inRange_num: "inRange (num c) lo hi = (lo \<le> c \<and> c \<le> hi)"
  by (simp add: inRange_def numLessEq_num)

lemma subInt_num: "subInt (num a) n = num (a - n)"
  by (simp add: subInt_def addInt_def num_def normalize.simps)

lemma takeWhile_replicate: "takeWhile (\<lambda>c. c = x) xs = replicate (length (takeWhile (\<lambda>c. c = x) xs)) x"
  by (induction xs) auto

lemma strip_restore:
  "stripTrailingZeros ds @ replicate (length ds - length (stripTrailingZeros ds)) CHR ''0'' = ds"
proof -
  let ?P = "\<lambda>c. c = CHR ''0''"
  have split: "rev ds = takeWhile ?P (rev ds) @ dropWhile ?P (rev ds)" by simp
  have len: "length ds - length (stripTrailingZeros ds) = length (takeWhile ?P (rev ds))"
  proof -
    have "length (rev ds) = length (takeWhile ?P (rev ds)) + length (dropWhile ?P (rev ds))"
      by (subst split) (simp only: length_append)
    then show ?thesis by (simp add: stripTrailingZeros_def)
  qed
  have "ds = rev (dropWhile ?P (rev ds)) @ rev (takeWhile ?P (rev ds))"
    by (metis rev_append rev_rev_ident split)
  also have "rev (takeWhile ?P (rev ds)) = replicate (length (takeWhile ?P (rev ds))) CHR ''0''"
    by (subst takeWhile_replicate) simp
  finally have "ds = stripTrailingZeros ds @ replicate (length (takeWhile ?P (rev ds))) CHR ''0''"
    by (simp add: stripTrailingZeros_def)
  then show ?thesis
    unfolding len by simp
qed

lemma length_strip: "length (stripTrailingZeros ds) \<le> length ds"
  by (simp add: stripTrailingZeros_def length_dropWhile_le order_trans [OF length_dropWhile_le])

lemma length_decimalDigits: "0 < k \<Longrightarrow> n < 10 ^ k \<Longrightarrow> length (decimalDigits n) \<le> k"
proof (induction n arbitrary: k rule: decimalDigits.induct)
  case (1 n)
  show ?case
  proof (cases "n < 10")
    case True
    with 1 show ?thesis by (subst decimalDigits.simps) simp
  next
    case False
    with "1.prems" have k: "1 < k" by (cases "k = 1") auto
    then obtain j where j: "k = Suc j" "0 < j" by (cases k) auto
    with "1.prems" have "n div 10 < 10 ^ j" by (simp add: less_mult_imp_div_less mult.commute)
    with "1.IH" False j have "length (decimalDigits (n div 10)) \<le> j" by simp
    with False j show ?thesis by (subst decimalDigits.simps) simp
  qed
qed

lemma positiveToString_int:
  assumes "m < 10 ^ 21"
  shows "positiveToString m 0 = decimalDigits m"
proof -
  have l: "length (decimalDigits m) \<le> 21"
    using assms by (intro length_decimalDigits) simp_all
  have s: "length (stripTrailingZeros (decimalDigits m)) \<le> length (decimalDigits m)"
    by (rule length_strip)
  show ?thesis
    using l s strip_restore [of "decimalDigits m"]
    by (simp add: positiveToString_def Let_def nat_diff_distrib' of_nat_diff)
qed

lemma numToString_num:
  assumes "0 < n" "n < 10 ^ 21"
  shows "numToString (num n) = intToString n"
proof -
  from assms have "nat n < 10 ^ 21" by (simp add: nat_less_iff)
  then have "positiveToString (nat n) 0 = decimalDigits (nat n)" by (rule positiveToString_int)
  with assms show ?thesis by (simp add: numToString_def num_def intToString_def)
qed

text \<open>
  C7.  For every body, the zone status (ZS), zone definition (ZD) and zone partition (ZP)
  reports hold exactly 208 entries with the ids 1 to 208 in ascending order, and the
  output status (CS) report holds exactly 208 entries, the entry of output \<open>i\<close> at
  position \<open>i - 1\<close>; entry \<open>i\<close> is decoded from the single character of the body at
  offset \<open>i - 1\<close> (from the empty string when the body is shorter).
\<close>

theorem indexed_reports_208:
  "zoneStatusFields T b = ZoneStatusReport (statusZones (zoneStatusFields T b))
   \<and> length (statusZones (zoneStatusFields T b)) = 208
   \<and> map zoneStatusId (statusZones (zoneStatusFields T b)) = map int [1..<209]
   \<and> statusZones (zoneStatusFields T b)
       = map (\<lambda>i. ZoneStatus (int i) (physicalOf T (parseInt (charAt b (i - 1)) 16))
                     (logicalOf T (parseInt (charAt b (i - 1)) 16))) [1..<209]
   \<and> zoneDefinitionFields T b = ZoneDefinitionReport (definitionZones (zoneDefinitionFields T b))
   \<and> length (definitionZones (zoneDefinitionFields T b)) = 208
   \<and> map zoneDefinitionId (definitionZones (zoneDefinitionFields T b)) = map int [1..<209]
   \<and> definitionZones (zoneDefinitionFields T b)
       = map (\<lambda>i. ZoneDefinition (int i) (zoneDefinition T (charAt b (i - 1)))) [1..<209]
   \<and> zonePartitionFields T b = ZonePartitionReport (partitionZones (zonePartitionFields T b))
   \<and> length (partitionZones (zonePartitionFields T b)) = 208
   \<and> map zonePartitionId (partitionZones (zonePartitionFields T b)) = map int [1..<209]
   \<and> partitionZones (zonePartitionFields T b)
       = map (\<lambda>i. ZonePartition (int i) (Number (charAt b (i - 1)))) [1..<209]
   \<and> outputStatusFields T b = OutputStatusReport (outputsOf (outputStatusFields T b))
   \<and> length (outputsOf (outputStatusFields T b)) = 208
   \<and> outputsOf (outputStatusFields T b)
       = map (\<lambda>i. if charAt b (i - 1) = ''0'' then ''Off'' else ''On'') [1..<209]"
proof -
  have shift: "map f [0..<208] = map (\<lambda>i. f (i - 1)) [1..<209]" for f :: "nat \<Rightarrow> 'a"
  proof -
    have "[0..<208] = map (\<lambda>i. i - 1) [1..<209]"
      by (rule nth_equalityI) (simp_all add: nth_append)
    then show ?thesis by (simp add: comp_def)
  qed
  have zd: "definitionZones (zoneDefinitionFields T b)
       = map (\<lambda>i. ZoneDefinition (int i) (zoneDefinition T (charAt b (i - 1)))) [1..<209]"
    unfolding zoneDefinition_eq definitionZones.simps
    by (subst shift) (rule map_cong, simp_all)
  have os: "outputsOf (outputStatusFields T b)
       = map (\<lambda>i. if charAt b (i - 1) = ''0'' then ''Off'' else ''On'') [1..<209]"
    unfolding outputStatus_eq outputsOf.simps
    by (subst shift) simp
  have zs: "statusZones (zoneStatusFields T b)
       = map (\<lambda>i. ZoneStatus (int i) (physicalOf T (parseInt (charAt b (i - 1)) 16))
                     (logicalOf T (parseInt (charAt b (i - 1)) 16))) [1..<209]"
    by (simp add: zoneStatus_eq)
  have zp: "partitionZones (zonePartitionFields T b)
       = map (\<lambda>i. ZonePartition (int i) (Number (charAt b (i - 1)))) [1..<209]"
    by (simp add: zonePartition_eq)
  have 1: "zoneStatusFields T b = ZoneStatusReport (statusZones (zoneStatusFields T b))"
    by (simp add: zoneStatus_eq)
  have 2: "zoneDefinitionFields T b = ZoneDefinitionReport (definitionZones (zoneDefinitionFields T b))"
    by (simp add: zoneDefinition_eq)
  have 3: "zonePartitionFields T b = ZonePartitionReport (partitionZones (zonePartitionFields T b))"
    by (simp add: zonePartition_eq)
  have 4: "outputStatusFields T b = OutputStatusReport (outputsOf (outputStatusFields T b))"
    by (simp add: outputStatus_eq)
  have i1: "map zoneStatusId (statusZones (zoneStatusFields T b)) = map int [1..<209]"
    unfolding zs by (simp add: comp_def)
  have i2: "map zoneDefinitionId (definitionZones (zoneDefinitionFields T b)) = map int [1..<209]"
    unfolding zd by (simp add: comp_def)
  have i3: "map zonePartitionId (partitionZones (zonePartitionFields T b)) = map int [1..<209]"
    unfolding zp by (simp add: comp_def)
  have l1: "length (statusZones (zoneStatusFields T b)) = 208" unfolding zs by simp
  have l2: "length (definitionZones (zoneDefinitionFields T b)) = 208" unfolding zd by simp
  have l3: "length (partitionZones (zonePartitionFields T b)) = 208" unfolding zp by simp
  have l4: "length (outputsOf (outputStatusFields T b)) = 208" unfolding os by simp
  from 1 2 3 4 l1 l2 l3 l4 i1 i2 i3 zs zd zp os show ?thesis by blast
qed

text \<open>
  C8.  For every integer event code: from 4001 to 4208 the event is a zone status event
  for zone \<open>code - 4000\<close>, from 5001 to 5208 a zone bypass event, from 6001 to 6208 an
  alarm memory event, from 7001 to 7208 an output status event, and otherwise the entry
  of the event description table for the code.  The sub-text compares the code itself
  with 1, so in the first range it is always \<open>normal\<close>.
\<close>

theorem getEventType_classification:
  "getEventType T (num code) =
     (if 4001 \<le> code \<and> code \<le> 4208
      then Some (''Zone '' @ intToString (code - 4000) @ '' Status: ''
                 @ (if code = 1 then ''violated'' else ''normal''))
      else if 5001 \<le> code \<and> code \<le> 5208
      then Some (''Zone '' @ intToString (code - 4000) @ ''  Bypassed: ''
                 @ (if code = 1 then ''bypassed'' else []))
      else if 6001 \<le> code \<and> code \<le> 6208
      then Some (''Alarm Memory: '' @ (if code = 1 then ''alarm activated'' else []))
      else if 7001 \<le> code \<and> code \<le> 7208
      then Some (''Output '' @ intToString (code - 4000) @ ''  Status: ''
                 @ (if code = 1 then ''On'' else ''Off''))
      else EventType T (numToString (num code)))
   \<and> (4001 \<le> code \<and> code \<le> 4208 \<longrightarrow>
        getEventType T (num code) = Some (''Zone '' @ intToString (code - 4000) @ '' Status: normal''))"
proof -
  have s: "numToString (subInt (num code) 4000) = intToString (code - 4000)"
    if "4001 \<le> code" "code \<le> 7208"
  proof -
    from that have "0 < code - 4000" "code - 4000 < 10 ^ 21" by simp_all
    then show ?thesis by (simp add: subInt_num numToString_num)
  qed
  have main: "getEventType T (num code) =
     (if 4001 \<le> code \<and> code \<le> 4208
      then Some (''Zone '' @ intToString (code - 4000) @ '' Status: ''
                 @ (if code = 1 then ''violated'' else ''normal''))
      else if 5001 \<le> code \<and> code \<le> 5208
      then Some (''Zone '' @ intToString (code - 4000) @ ''  Bypassed: ''
                 @ (if code = 1 then ''bypassed'' else []))
      else if 6001 \<le> code \<and> code \<le> 6208
      then Some (''Alarm Memory: '' @ (if code = 1 then ''alarm activated'' else []))
      else if 7001 \<le> code \<and> code \<le> 7208
      then Some (''Output '' @ intToString (code - 4000) @ ''  Status: ''
                 @ (if code = 1 then ''On'' else ''Off''))
      else EventType T (numToString (num code)))"
    using s by (simp add: getEventType_def inRange_num numEq_num)
  then show ?thesis by simp
qed

theorem getEventType_classification_witness:
  "(4001::int) \<le> 4001 \<and> (4001::int) \<le> 4208
   \<and> getEventType fixtureTables (num 4001) = Some ''Zone 1 Status: normal''
   \<and> getEventType fixtureTables (num 1193) = Some ''AREA 3 IS ARMED STAY''"
proof -
  have h: "(4001::int) \<le> 4001 \<and> (4001::int) \<le> 4208" by simp
  have d: "''Zone '' @ intToString (4001 - 4000) @ '' Status: normal'' = ''Zone 1 Status: normal''"
    by code_simp
  from getEventType_classification [of fixtureTables 4001] h
  have "getEventType fixtureTables (num 4001)
          = Some (''Zone '' @ intToString (4001 - 4000) @ '' Status: normal'')"
    by blast
  with d have 1: "getEventType fixtureTables (num 4001) = Some ''Zone 1 Status: normal''"
    by simp
  have e: "EventType fixtureTables (numToString (num 1193)) = Some ''AREA 3 IS ARMED STAY''"
    by code_simp
  from getEventType_classification [of fixtureTables 1193] e
  have 2: "getEventType fixtureTables (num 1193) = Some ''AREA 3 IS ARMED STAY''"
    by simp
  from h 1 2 show ?thesis by blast
qed

text \<open>
  C9 at the frame \<open>13TR00200726875000000\<close>: the thermostat id field is \<open>00\<close> and the
  decoded id is \<open>0\<close>, not \<open>Invalid\<close>; the comparison with the one-character literal
  \<open>0\<close> succeeds only for a body that is that one character.  The fixture with the field
  \<open>01\<close> decodes to the id \<open>1\<close>.
\<close>

theorem thermostat_zero_id:
  "thermostatId (body (frameFields ''13TR00200726875000000'')) = ''0''
   \<and> thermostatId (body (frameFields ''13TR01200726875000000'')) = ''1''
   \<and> thermostatId ''0'' = ''Invalid''"
  by code_simp

lemma sub_beyond: "length b \<le> i \<Longrightarrow> i \<le> j \<Longrightarrow> sub b i j = []"
  by (simp add: sub_def substring_def Let_def min_def max_def)

lemma fromResponse_registered:
  "rt (substring response 2 4) = Some name \<Longrightarrow> fromResponse rt response = Inr (frameFields response)"
  by (simp add: fromResponse_def Let_def frameFields_def)

text \<open>
  C10.  For every response whose type code (offsets 2 to 4) is registered under the name
  of a typed message class, or under a name that is no class of the module, the factory
  returns a message and no error, whatever the length and content of the body: the
  checksum is not looked at, the fields are those the constructor slices, and a substring
  beyond the end of the body is empty.
\<close>

theorem registered_type_never_throws:
  assumes "responseTypes T (substring response 2 4) = Some name"
    and "name \<noteq> ''ElkMessage''"
  shows "getElkResponse T response
           = Inr (frameFields response,
                  case messages T name of
                    Some f \<Rightarrow> f (body (frameFields response))
                  | None \<Rightarrow> NoFields)
       \<and> (\<forall>i j. length (body (frameFields response)) \<le> i \<and> i \<le> j
             \<longrightarrow> sub (body (frameFields response)) i j = [])"
proof -
  have "fromResponse (responseTypes T) response = Inr (frameFields response)"
    using assms(1) by (rule fromResponse_registered)
  then have "getElkResponse T response
           = Inr (frameFields response,
                  case messages T name of
                    Some f \<Rightarrow> f (body (frameFields response))
                  | None \<Rightarrow> NoFields)"
    using assms by (simp add: getElkResponse_def Let_def newTyped_def newBase_def split: option.splits)
  then show ?thesis by (simp add: sub_beyond)
qed

theorem registered_type_never_throws_witness:
  "responseTypes fixtureTables (substring ''06KAx'' 2 4) = Some ''KeypadAreasReport''
   \<and> ''KeypadAreasReport'' \<noteq> ''ElkMessage''
   \<and> getElkResponse fixtureTables ''06KAx''
       = Inr (frameFields ''06KAx'',
              KeypadAreasReport (replicate 16 NaN) (map (\<lambda>i. (int i, NaN)) [1..<17]))
   \<and> length (body (frameFields ''06KAx'')) \<le> 1 \<and> (1::nat) \<le> 2
   \<and> sub (body (frameFields ''06KAx'')) 1 2 = []"
proof -
  have h1: "responseTypes fixtureTables (substring ''06KAx'' 2 4) = Some ''KeypadAreasReport''"
    by code_simp
  have h2: "''KeypadAreasReport'' \<noteq> ''ElkMessage''" by simp
  have h3: "length (body (frameFields ''06KAx'')) \<le> 1 \<and> (1::nat) \<le> 2" by code_simp
  have v: "(case messages fixtureTables ''KeypadAreasReport'' of
              Some f \<Rightarrow> f (body (frameFields ''06KAx''))
            | None \<Rightarrow> NoFields)
           = KeypadAreasReport (replicate 16 NaN) (map (\<lambda>i. (int i, NaN)) [1..<17])"
    by code_simp
  note w = registered_type_never_throws [OF h1 h2]
  from w v have 1: "getElkResponse fixtureTables ''06KAx''
       = Inr (frameFields ''06KAx'',
              KeypadAreasReport (replicate 16 NaN) (map (\<lambda>i. (int i, NaN)) [1..<17]))"
    by simp
  from w h3 have 2: "sub (body (frameFields ''06KAx'')) 1 2 = []" by blast
  from h1 h2 h3 1 2 show ?thesis by blast
qed

section \<open>Properties of the dispatcher\<close>

lemma settle_fields [simp]:
  "listeners (settle p v w) = listeners w"
  "timers (settle p v w) = timers w"
  "items (settle p v w) = items w"
  "written (settle p v w) = written w"
  "emitted (settle p v w) = emitted w"
  "clock (settle p v w) = clock w"
  "nextPromise (settle p v w) = nextPromise w"
  "isAuthorized (settle p v w) = isAuthorized w"
  "destroyed (settle p v w) = destroyed w"
  by (simp_all add: settle_def)

lemma getDescription_fields [simp]:
  "promises (getDescription C c w) = promises w"
  "items (getDescription C c w) = items w"
  "emitted (getDescription C c w) = emitted w"
  "clock (getDescription C c w) = clock w"
  "nextPromise (getDescription C c w) = nextPromise w"
  "isAuthorized (getDescription C c w) = isAuthorized w"
  "destroyed (getDescription C c w) = destroyed w"
  by (cases c; simp add: getDescription_def once_def send_def connectionWrite_def setTimeout_def Let_def)+

lemma recursiveCallback_fields [simp]:
  "emitted (recursiveCallback C c d w) = emitted w"
  "clock (recursiveCallback C c d w) = clock w"
  "nextPromise (recursiveCallback C c d w) = nextPromise w"
  "isAuthorized (recursiveCallback C c d w) = isAuthorized w"
  "destroyed (recursiveCallback C c d w) = destroyed w"
  by (cases c; cases d; simp add: recursiveCallback_def Let_def)+

lemma callListener_fields [simp]:
  "emitted (callListener C cb m w) = emitted w"
  "clock (callListener C cb m w) = clock w"
  "nextPromise (callListener C cb m w) = nextPromise w"
  "isAuthorized (callListener C cb m w) = isAuthorized w"
  "destroyed (callListener C cb m w) = destroyed w"
  by (cases cb; simp)+

lemma fireListener_fields [simp]:
  "emitted (fireListener C ev m w cb) = emitted w"
  "clock (fireListener C ev m w cb) = clock w"
  "nextPromise (fireListener C ev m w cb) = nextPromise w"
  "isAuthorized (fireListener C ev m w cb) = isAuthorized w"
  "destroyed (fireListener C ev m w cb) = destroyed w"
  by (simp_all add: fireListener_def)

lemma foldl_fireListener_fields [simp]:
  "emitted (foldl (fireListener C ev m) w cbs) = emitted w"
  "clock (foldl (fireListener C ev m) w cbs) = clock w"
  "nextPromise (foldl (fireListener C ev m) w cbs) = nextPromise w"
  "isAuthorized (foldl (fireListener C ev m) w cbs) = isAuthorized w"
  "destroyed (foldl (fireListener C ev m) w cbs) = destroyed w"
  by (induction cbs arbitrary: w; simp)+

lemma emit_fields [simp]:
  "emitted (emit C ev m w) = emitted w @ [(ev, Message m)]"
  "clock (emit C ev m w) = clock w"
  "nextPromise (emit C ev m w) = nextPromise w"
  "isAuthorized (emit C ev m w) = isAuthorized w"
  "destroyed (emit C ev m w) = destroyed w"
  by (simp_all add: emit_def Let_def)







section \<open>Properties of the description chain\<close>















lemma reportOf_decodes:
  "getElkResponse fixtureTables ''1BSD01008Area 8          0000''
     = Inr (reportOf ''1BSD01008Area 8          0000'')"
  by code_simp

end
